theory Spec2Isabelle
  imports Main "HOL-Library.AList"
begin

section \<open>JavaScript values\<close>

text \<open>
  The values that documents and modifiers of \<^verbatim>\<open>src/diff.ts\<close> are built from. A
  mapping (plain object) is an association list in the iteration order of its own
  keys; a sequence (array) is a list. Numbers are restricted to the integers, so
  \<^verbatim>\<open>NaN\<close> and the infinities are not values of the model; a date is its
  \<^verbatim>\<open>getTime()\<close> instant. Function values are not modelled: the documents of the
  specification have none.
\<close>

datatype val =
    Undefined
  | Null
  | Bool bool
  | Num int
  | Str string
  | Date int
  | Arr "val list"
  | Obj "(string \<times> val) list"

type_synonym obj = "(string \<times> val) list"

text \<open>What the source throws: a \<^verbatim>\<open>TypeError\<close> of the runtime, or \<^verbatim>\<open>new Error(msg)\<close>.\<close>

datatype error = TypeError | Error string

subsection \<open>Language primitives used by the source\<close>

text \<open>Truthiness, as tested by \<^verbatim>\<open>if (v)\<close>, \<^verbatim>\<open>!v\<close> and \<^verbatim>\<open>a || b\<close>.\<close>

fun truthy :: "val \<Rightarrow> bool" where
  "truthy Undefined = False"
| "truthy Null = False"
| "truthy (Bool b) = b"
| "truthy (Num n) = (n \<noteq> 0)"
| "truthy (Str s) = (s \<noteq> [])"
| "truthy (Date t) = True"
| "truthy (Arr xs) = True"
| "truthy (Obj kvs) = True"

text \<open>\<^verbatim>\<open>typeof v === 'object'\<close>: true of \<^verbatim>\<open>null\<close>, dates, arrays and plain objects.\<close>

fun typeof_object :: "val \<Rightarrow> bool" where
  "typeof_object Null = True"
| "typeof_object (Date t) = True"
| "typeof_object (Arr xs) = True"
| "typeof_object (Obj kvs) = True"
| "typeof_object v = False"

fun isArray :: "val \<Rightarrow> bool" where
  "isArray (Arr xs) = True"
| "isArray v = False"

fun instanceof_Date :: "val \<Rightarrow> bool" where
  "instanceof_Date (Date t) = True"
| "instanceof_Date v = False"

text \<open>
  \<^verbatim>\<open>Object.keys(v).length\<close>: the number of own enumerable keys. \<^verbatim>\<open>Object.keys\<close> throws a
  \<^verbatim>\<open>TypeError\<close> on \<^verbatim>\<open>undefined\<close> and \<^verbatim>\<open>null\<close>; a number, a boolean and a date have no
  own enumerable keys; a string and an array have their indices.
\<close>

fun keys_length :: "val \<Rightarrow> error + nat" where
  "keys_length Undefined = Inl TypeError"
| "keys_length Null = Inl TypeError"
| "keys_length (Bool b) = Inr 0"
| "keys_length (Num n) = Inr 0"
| "keys_length (Str s) = Inr (length s)"
| "keys_length (Date t) = Inr 0"
| "keys_length (Arr xs) = Inr (length xs)"
| "keys_length (Obj kvs) = Inr (length kvs)"

text \<open>Property read \<^verbatim>\<open>o[k]\<close> on a mapping: \<^verbatim>\<open>undefined\<close> when the key is absent.\<close>

definition get_prop :: "obj \<Rightarrow> string \<Rightarrow> val" where
  "get_prop ob k = (case map_of ob k of Some v \<Rightarrow> v | None \<Rightarrow> Undefined)"

text \<open>
  \<^verbatim>\<open>keyPath.split('.')\<close>: the segments between the dots; the empty string has the one
  segment \<^verbatim>\<open>""\<close>.
\<close>

fun split_dot :: "string \<Rightarrow> string list" where
  "split_dot [] = [[]]"
| "split_dot (c # cs) =
     (if c = CHR ''.'' then [] # split_dot cs
      else (c # hd (split_dot cs)) # tl (split_dot cs))"

text \<open>A numeric segment (decimal digits only) and the array index it addresses.\<close>

definition is_digit :: "char \<Rightarrow> bool" where
  "is_digit c = (c \<in> set ''0123456789'')"

definition digit_val :: "char \<Rightarrow> nat" where
  "digit_val c = of_char c - 48"

definition seg_index :: "string \<Rightarrow> nat option" where
  "seg_index s =
     (if s \<noteq> [] \<and> list_all is_digit s
      then Some (foldl (\<lambda>n c. 10 * n + digit_val c) 0 s) else None)"

section \<open>Helpers of the repository that \<^verbatim>\<open>diff.ts\<close> imports\<close>

text \<open>
  \<^verbatim>\<open>diff.ts\<close> imports \<^verbatim>\<open>check\<close>, \<^verbatim>\<open>./containers\<close> and \<^verbatim>\<open>./keypath\<close>. Only their
  declarations (\<^verbatim>\<open>index.d.ts\<close>) are at hand, so each helper below is written from
  the specification, and says so.
\<close>

subsection \<open>\<^verbatim>\<open>check\<close>\<close>

text \<open>
  Modelled from the spec: \<^verbatim>\<open>check(v, Number)\<close> of \<^verbatim>\<open>check.ts\<close>, which is missing. Section 4.2
  reads it as "numeric", and asks that the type be numeric, "guarding against
  numeric-string confusion": only a number passes.
\<close>

fun check_Number :: "val \<Rightarrow> bool" where
  "check_Number (Num n) = True"
| "check_Number v = False"

subsection \<open>\<^verbatim>\<open>containers\<close>\<close>

text \<open>
  Modelled from the spec: \<^verbatim>\<open>isEqual\<close> of \<^verbatim>\<open>containers.ts\<close>, which is missing: "deeply
  structurally equal". Sequences are compared position by position, mappings key by
  key whatever the order of their keys, everything else by identity of kind and value.
\<close>

function isEqual :: "val \<Rightarrow> val \<Rightarrow> bool" where
  "isEqual (Arr xs) w =
     (case w of Arr ys \<Rightarrow> list_all2 isEqual xs ys | _ \<Rightarrow> False)"
| "isEqual (Obj kvs) w =
     (case w of
        Obj kws \<Rightarrow>
          set (map fst kvs) = set (map fst kws) \<and>
          (\<forall>k \<in> set (map fst kvs). isEqual (get_prop kvs k) (get_prop kws k))
      | _ \<Rightarrow> False)"
| "isEqual Undefined w = (w = Undefined)"
| "isEqual Null w = (w = Null)"
| "isEqual (Bool b) w = (w = Bool b)"
| "isEqual (Num n) w = (w = Num n)"
| "isEqual (Str s) w = (w = Str s)"
| "isEqual (Date t) w = (w = Date t)"
  by pat_completeness auto

termination isEqual
proof -
  have size_get_prop:
    "size (get_prop kvs k) < Suc (size_list (size_prod (\<lambda>_. 0) size) kvs)" for kvs k
    by (induction kvs) (auto simp: get_prop_def)
  have size_in_list: "x \<in> set xs \<Longrightarrow> size x < Suc (size_list size xs)" for x :: val and xs
    by (induction xs) auto
  show ?thesis
    by (relation "measure (\<lambda>(v, w). size v)") (auto simp: size_get_prop size_in_list)
qed

text \<open>
  Modelled from the spec: \<^verbatim>\<open>clone\<close> of \<^verbatim>\<open>containers.ts\<close>, which is missing: a deep copy.
  Values of the model are not shared, so the copy is the value.
\<close>

definition clone :: "obj \<Rightarrow> obj" where
  "clone ob = ob"

text \<open>
  Modelled from the spec: \<^verbatim>\<open>each\<close> of \<^verbatim>\<open>containers.ts\<close>, which is missing: the callback
  is run on every entry of a mapping, in the order of its keys. The callbacks of
  \<^verbatim>\<open>diff.ts\<close> mutate the destination document, which is threaded through here.
\<close>

definition each :: "obj \<Rightarrow> (val \<Rightarrow> string \<Rightarrow> 's \<Rightarrow> 's) \<Rightarrow> 's \<Rightarrow> 's" where
  "each src fn st = foldl (\<lambda>s (k, v). fn v k s) st src"

text \<open>
  Modelled from the spec: \<^verbatim>\<open>prune\<close> of \<^verbatim>\<open>containers.ts\<close>, which is missing: "prune any
  resulting empty container branches" (section 4.4). A branch is a mapping node
  (section 4.1), so a child that is an empty mapping once pruned itself is dropped;
  sequences are leaves and stay as they are.
\<close>

fun prune_val :: "val \<Rightarrow> val" where
  "prune_val (Obj kvs) = Obj (filter (\<lambda>kv. snd kv \<noteq> Obj []) (map (\<lambda>kv. (fst kv, prune_val (snd kv))) kvs))"
| "prune_val v = v"

definition prune :: "obj \<Rightarrow> obj" where
  "prune ob = filter (\<lambda>kv. snd kv \<noteq> Obj []) (map (\<lambda>kv. (fst kv, prune_val (snd kv))) ob)"

subsection \<open>\<^verbatim>\<open>keypath\<close>\<close>

text \<open>
  Modelled from the spec: \<^verbatim>\<open>keyPaths\<close> of \<^verbatim>\<open>keypath.ts\<close>, which is missing (section 4.1):
  every leaf keypath in depth-first order, keys in the order of the mapping; with
  \<^verbatim>\<open>allLevels\<close> the paths of the mapping nodes too, each before the paths below it.
  A leaf is a primitive, a date or a sequence (glossary): the traversal descends
  into mappings only, and an empty mapping contributes its own path under
  \<^verbatim>\<open>allLevels\<close> and nothing otherwise.
\<close>

fun keyPathsAt :: "bool \<Rightarrow> string \<Rightarrow> val \<Rightarrow> string list" where
  "keyPathsAt allLevels p (Obj kvs) =
     (if allLevels then [p] else []) @
     concat (map (\<lambda>kv. keyPathsAt allLevels (p @ ''.'' @ fst kv) (snd kv)) kvs)"
| "keyPathsAt allLevels p v = [p]"

definition keyPaths :: "obj \<Rightarrow> bool \<Rightarrow> string list" where
  "keyPaths ob allLevels = concat (map (\<lambda>kv. keyPathsAt allLevels (fst kv) (snd kv)) ob)"

text \<open>
  Modelled from the spec: \<^verbatim>\<open>valueForKeyPath\<close> of \<^verbatim>\<open>keypath.ts\<close>, which is missing: "walks
  segments; returns the sentinel absent value if any intermediate segment is
  missing, rather than failing". A segment names a key of a mapping; a numeric
  segment addresses an index of a sequence (section 3); nothing lies below any other
  value, nor below an absent document.
\<close>

fun walk :: "string list \<Rightarrow> val \<Rightarrow> val" where
  "walk [] v = v"
| "walk (k # ks) (Obj kvs) = walk ks (get_prop kvs k)"
| "walk (k # ks) (Arr xs) =
     (case seg_index k of
        Some i \<Rightarrow> if i < length xs then walk ks (xs ! i) else Undefined
      | None \<Rightarrow> Undefined)"
| "walk (k # ks) v = Undefined"

definition valueForKeyPath :: "string \<Rightarrow> val \<Rightarrow> val" where
  "valueForKeyPath keyPath input = walk (split_dot keyPath) input"

text \<open>
  Modelled from the spec: the places of a sequence, for \<^verbatim>\<open>setValueForKeyPath\<close> and
  \<^verbatim>\<open>unsetKeyPath\<close>, which are missing: "numeric segments address array indices"
  (sections 3 and 6). \<open>elem_at\<close> reads a place, absent past the end; \<open>put_at\<close> assigns
  one: past the end the sequence grows, and the places in between are absent.
\<close>

definition elem_at :: "'a \<Rightarrow> 'a list \<Rightarrow> nat \<Rightarrow> 'a" where
  "elem_at hole xs i = (if i < length xs then xs ! i else hole)"

definition put_at :: "'a \<Rightarrow> nat \<Rightarrow> 'a \<Rightarrow> 'a list \<Rightarrow> 'a list" where
  "put_at hole i v xs =
     (if i < length xs then xs[i := v] else xs @ replicate (i - length xs) hole @ [v])"

text \<open>
  Modelled from the spec: \<^verbatim>\<open>unsetKeyPath\<close> of \<^verbatim>\<open>keypath.ts\<close>, which is missing: "removes
  the leaf at the path; returns whether removal actually changed the document (path
  existed)". The path is followed as \<^verbatim>\<open>valueForKeyPath\<close> follows it, through the keys of
  mappings and the indices of sequences; where it meets nothing there is nothing to
  remove. A mapping loses the key. The spec does not say what a sequence loses: as
  assigning the absent value "behaves as a removal" (below), the place is made absent
  and the other elements keep their indices.
\<close>

fun unset_path :: "string list \<Rightarrow> val \<Rightarrow> val" where
  "unset_path [] node = node"
| "unset_path (k # ks) (Obj kvs) =
     (if ks = [] then Obj (AList.delete k kvs)
      else (case map_of kvs k of
              Some c \<Rightarrow> Obj (AList.update k (unset_path ks c) kvs)
            | None \<Rightarrow> Obj kvs))"
| "unset_path (k # ks) (Arr xs) =
     (case seg_index k of
        Some i \<Rightarrow>
          if i < length xs
          then Arr (xs[i := (if ks = [] then Undefined else unset_path ks (xs ! i))])
          else Arr xs
      | None \<Rightarrow> Arr xs)"
| "unset_path (k # ks) node = node"

text \<open>The fields of a document that is handed on as a value.\<close>

fun entries :: "val \<Rightarrow> obj" where
  "entries (Obj kvs) = kvs"
| "entries v = []"

definition unsetKeyPath :: "string \<Rightarrow> obj \<Rightarrow> bool \<times> obj" where
  "unsetKeyPath keyPath ob =
     (let ob' = entries (unset_path (split_dot keyPath) (Obj ob)) in (ob' \<noteq> ob, ob'))"

text \<open>
  Modelled from the spec: \<^verbatim>\<open>setValueForKeyPath\<close> of \<^verbatim>\<open>keypath.ts\<close>, which is missing:
  "walks/creates intermediate mapping nodes as needed (never creates array nodes
  implicitly, only mapping nodes) and assigns the leaf"; an absent value "behaves
  as a removal". The path is walked through the keys of mappings and the indices of
  sequences; where the next node is absent a fresh mapping is created for it. The
  spec does not say what happens when the path meets a value that is there and
  cannot be walked (a primitive, a date, a sequence at a segment that is no index):
  nothing is written then.
\<close>

definition fresh :: "val \<Rightarrow> val" where
  "fresh c = (if c = Undefined then Obj [] else c)"

fun set_path :: "val \<Rightarrow> string list \<Rightarrow> val \<Rightarrow> val" where
  "set_path v [] node = v"
| "set_path v (k # ks) (Obj kvs) =
     Obj (AList.update k (set_path v ks (fresh (get_prop kvs k))) kvs)"
| "set_path v (k # ks) (Arr xs) =
     (case seg_index k of
        Some i \<Rightarrow> Arr (put_at Undefined i (set_path v ks (fresh (elem_at Undefined xs i))) xs)
      | None \<Rightarrow> Arr xs)"
| "set_path v (k # ks) node = node"

definition setValueForKeyPath :: "val \<Rightarrow> string \<Rightarrow> obj \<Rightarrow> obj" where
  "setValueForKeyPath v keyPath ob =
     (if v = Undefined then snd (unsetKeyPath keyPath ob)
      else entries (set_path v (split_dot keyPath) (Obj ob)))"

text \<open>
  Modelled from the spec: \<^verbatim>\<open>_keyPathContainsPath\<close> of \<^verbatim>\<open>keypath.ts\<close>, which is missing and
  is not declared in \<^verbatim>\<open>index.d.ts\<close> either. It is the test of the subsumption step
  (section 4.3, step 3), which drops, of two different recorded paths, the one that
  lies below the other: \<^verbatim>\<open>_keyPathContainsPath(a, b)\<close> holds when \<^verbatim>\<open>a\<close> is a proper
  descendant of \<^verbatim>\<open>b\<close> under the dot-segment grammar.
\<close>

definition underscore_keyPathContainsPath :: "string \<Rightarrow> string \<Rightarrow> bool" where
  "underscore_keyPathContainsPath keyPath ignorePath =
     (let p = split_dot keyPath; t = split_dot ignorePath
      in length t < length p \<and> take (length t) p = t)"

text \<open>
  Modelled from the spec: \<^verbatim>\<open>filteredKeyPaths\<close> of \<^verbatim>\<open>keypath.ts\<close>, which is missing:
  "removes any path that is, or is a descendant of, any path in ignore".
\<close>

definition filteredKeyPaths :: "string list \<Rightarrow> string list \<Rightarrow> string list" where
  "filteredKeyPaths paths ignore =
     filter (\<lambda>p. \<not> list_ex (\<lambda>i. p = i \<or> underscore_keyPathContainsPath p i) ignore) paths"

section \<open>\<^verbatim>\<open>src/diff.ts\<close>\<close>

subsection \<open>The change classifier\<close>

text \<open>
  \<^verbatim>\<open>shouldSet(val, prev)\<close>, lines 41 to 53. The source falls off the end of the
  function when no branch applies; the \<^verbatim>\<open>undefined\<close> it then returns is falsy at the
  one place that tests it, and is \<open>False\<close> here.
\<close>

definition shouldSet :: "val \<Rightarrow> val \<Rightarrow> bool" where
  "shouldSet v prev =
     (if isArray v then \<not> isEqual prev v
      else if instanceof_Date v then \<not> instanceof_Date prev \<or> v \<noteq> prev
      else if check_Number v then prev \<noteq> v \<or> \<not> check_Number prev
      else if v \<noteq> Null \<and> typeof_object v then \<not> isEqual prev v
      else if truthy v then prev \<noteq> v
      else False)"

text \<open>
  \<^verbatim>\<open>shouldUnset(val, prev)\<close>, lines 55 to 65. The second test calls
  \<^verbatim>\<open>Object.keys(val)\<close> after checking \<^verbatim>\<open>val !== null\<close> only.
\<close>

definition shouldUnset :: "val \<Rightarrow> val \<Rightarrow> error + bool" where
  "shouldUnset v prev =
     (if (truthy prev \<or> check_Number prev) \<and> \<not> (truthy v \<or> check_Number v) then Inr True
      else if v \<noteq> Null \<and> typeof_object prev then
        (case keys_length v of
           Inl e \<Rightarrow> Inl e
         | Inr n \<Rightarrow> if n = 0 then Inr True else Inr False)
      else Inr False)"

subsection \<open>\<^verbatim>\<open>diffToModifier\<close>\<close>

text \<open>A document argument that may be absent, as a value.\<close>

definition doc_val :: "obj option \<Rightarrow> val" where
  "doc_val d = (case d of Some ob \<Rightarrow> Obj ob | None \<Rightarrow> Undefined)"

text \<open>Lines 71 to 80: the forward pass fills \<^verbatim>\<open>delta.$set\<close>.\<close>

definition forwardStep :: "obj option \<Rightarrow> obj \<Rightarrow> obj \<Rightarrow> string \<Rightarrow> obj" where
  "forwardStep prev doc dset keyPath =
     (let v = valueForKeyPath keyPath (Obj doc)
      in if shouldSet v (valueForKeyPath keyPath (doc_val prev))
         then AList.update keyPath v dset else dset)"

definition forwardPass :: "obj option \<Rightarrow> obj option \<Rightarrow> string list \<Rightarrow> obj" where
  "forwardPass prev doc fieldsToIgnore =
     (case doc of
        None \<Rightarrow> []
      | Some d \<Rightarrow>
          foldl (forwardStep prev d) [] (filteredKeyPaths (keyPaths d False) fieldsToIgnore))"

text \<open>
  Lines 82 to 89: the backward pass fills \<^verbatim>\<open>delta.$unset\<close>; an exception of
  \<^verbatim>\<open>shouldUnset\<close> leaves the loop and the function.
\<close>

fun backwardLoop :: "obj \<Rightarrow> obj option \<Rightarrow> obj \<Rightarrow> string list \<Rightarrow> error + obj" where
  "backwardLoop prev doc dunset [] = Inr dunset"
| "backwardLoop prev doc dunset (keyPath # rest) =
     (case shouldUnset (valueForKeyPath keyPath (doc_val doc)) (valueForKeyPath keyPath (Obj prev)) of
        Inl e \<Rightarrow> Inl e
      | Inr True \<Rightarrow> backwardLoop prev doc (AList.update keyPath (Bool True) dunset) rest
      | Inr False \<Rightarrow> backwardLoop prev doc dunset rest)"

text \<open>
  Lines 90 to 98: both loops run over the keys that \<^verbatim>\<open>delta.$unset\<close> had before the
  first deletion.
\<close>

definition subsume :: "obj \<Rightarrow> obj" where
  "subsume dunset =
     (let keys = map fst dunset
      in foldl (\<lambda>m pathA.
           foldl (\<lambda>m pathB.
             if underscore_keyPathContainsPath pathA pathB then AList.delete pathA m else m)
             m keys)
           dunset keys)"

definition backwardPass :: "obj option \<Rightarrow> obj option \<Rightarrow> string list \<Rightarrow> error + obj" where
  "backwardPass prev doc fieldsToIgnore =
     (case prev of
        None \<Rightarrow> Inr []
      | Some p \<Rightarrow>
          (case backwardLoop p doc [] (filteredKeyPaths (keyPaths p True) fieldsToIgnore) of
             Inl e \<Rightarrow> Inl e
           | Inr dunset \<Rightarrow> Inr (subsume dunset)))"

text \<open>
  Lines 100 to 106 and 112: the empty fields are deleted from \<^verbatim>\<open>delta\<close>, and a
  \<^verbatim>\<open>delta\<close> left without fields is not returned.
\<close>

definition mkDelta :: "obj \<Rightarrow> obj \<Rightarrow> obj option" where
  "mkDelta dset dunset =
     (let delta = (if dset = [] then [] else [(''$set'', Obj dset)]) @
                  (if dunset = [] then [] else [(''$unset'', Obj dunset)])
      in if delta = [] then None else Some delta)"

definition diffOnce :: "obj option \<Rightarrow> obj option \<Rightarrow> string list \<Rightarrow> error + obj option" where
  "diffOnce prev doc fieldsToIgnore =
     (case backwardPass prev doc fieldsToIgnore of
        Inl e \<Rightarrow> Inl e
      | Inr dunset \<Rightarrow> Inr (mkDelta (forwardPass prev doc fieldsToIgnore) dunset))"

text \<open>
  \<^verbatim>\<open>diffToModifier(prev, doc, fieldsToIgnore, pruneEmptyObjects)\<close>, lines 67 to 114.
  An omitted \<^verbatim>\<open>fieldsToIgnore\<close> is the empty list and an omitted \<^verbatim>\<open>pruneEmptyObjects\<close> is
  \<open>False\<close>. With the flag, line 109 diffs \<^verbatim>\<open>prev\<close> against \<^verbatim>\<open>(clone(prev), delta)\<close>, which
  is \<^verbatim>\<open>delta\<close>, with the flag off: the recursion is one call deep.
\<close>

definition diffToModifier ::
  "obj option \<Rightarrow> obj option \<Rightarrow> string list \<Rightarrow> bool \<Rightarrow> error + obj option" where
  "diffToModifier prev doc fieldsToIgnore pruneEmptyObjects =
     (case diffOnce prev doc fieldsToIgnore of
        Inl e \<Rightarrow> Inl e
      | Inr None \<Rightarrow> Inr None
      | Inr (Some delta) \<Rightarrow>
          if pruneEmptyObjects then
            (case diffOnce prev (Some delta) fieldsToIgnore of
               Inl e \<Rightarrow> Inl e
             | Inr (Some newDelta) \<Rightarrow> Inr (Some newDelta)
             | Inr None \<Rightarrow> Inr (Some delta))
          else Inr (Some delta))"

definition objToModifier :: "obj \<Rightarrow> error + obj option" where
  "objToModifier ob = diffToModifier None (Some ob) [] False"

subsection \<open>Applying a modifier\<close>

text \<open>
  \<^verbatim>\<open>$set(dest, source)\<close>, lines 149 to 161, with \<^verbatim>\<open>dest\<close> threaded through. After the
  recursive call on \<^verbatim>\<open>source.$set\<close> the source goes on to line 156 and runs \<^verbatim>\<open>each\<close>
  over \<^verbatim>\<open>source\<close> itself. The \<^verbatim>\<open>Modifier\<close> interface makes \<^verbatim>\<open>source\<close>, \<^verbatim>\<open>source.$set\<close> and
  \<^verbatim>\<open>source.$unset\<close> mappings or absent; a source that is no mapping is falsy, or has
  no fields to visit, and leaves \<^verbatim>\<open>dest\<close> as it is.
\<close>

function (sequential) dollar_set :: "obj \<Rightarrow> val \<Rightarrow> obj" where
  "dollar_set dest (Obj src) =
     each src
       (\<lambda>v keyPath d. if check_Number v \<or> truthy v then setValueForKeyPath v keyPath d else d)
       (if truthy (get_prop src ''$set'') \<or> truthy (get_prop src ''$unset'')
        then dollar_set dest (get_prop src ''$set'') else dest)"
| "dollar_set dest v = dest"
  by pat_completeness auto
termination
proof -
  have size_get_prop:
    "size (get_prop kvs k) < Suc (size_list (size_prod (\<lambda>_. 0) size) kvs)" for kvs k
    by (induction kvs) (auto simp: get_prop_def)
  show ?thesis
    by (relation "measure (\<lambda>(dest, source). size source)") (auto simp: size_get_prop)
qed

text \<open>\<^verbatim>\<open>$unset(dest, source)\<close>, lines 173 to 181, in the same way.\<close>

function (sequential) dollar_unset :: "obj \<Rightarrow> val \<Rightarrow> obj" where
  "dollar_unset dest (Obj src) =
     each src
       (\<lambda>v keyPath d. snd (unsetKeyPath keyPath d))
       (if truthy (get_prop src ''$unset'') \<or> truthy (get_prop src ''$set'')
        then dollar_unset dest (get_prop src ''$unset'') else dest)"
| "dollar_unset dest v = dest"
  by pat_completeness auto
termination
proof -
  have size_get_prop:
    "size (get_prop kvs k) < Suc (size_list (size_prod (\<lambda>_. 0) size) kvs)" for kvs k
    by (induction kvs) (auto simp: get_prop_def)
  show ?thesis
    by (relation "measure (\<lambda>(dest, source). size source)") (auto simp: size_get_prop)
qed

text \<open>
  \<^verbatim>\<open>apply(dest, source)\<close>, lines 134 to 147; \<^verbatim>\<open>apply\<close> is a keyword of Isabelle, hence
  the longer name. The result is the mutated \<^verbatim>\<open>dest\<close>.
\<close>

definition applyModifier :: "obj \<Rightarrow> obj option \<Rightarrow> error + obj" where
  "applyModifier dest source =
     (case source of
        None \<Rightarrow> Inr dest
      | Some src \<Rightarrow>
          if truthy (get_prop src ''$set'') \<or> truthy (get_prop src ''$unset'')
          then Inr (prune (dollar_unset (dollar_set dest (Obj src)) (Obj src)))
          else
            (case objToModifier src of
               Inl e \<Rightarrow> Inl e
             | Inr m \<Rightarrow> Inr (prune (dollar_unset (dollar_set dest (doc_val m)) (doc_val m)))))"

subsection \<open>\<^verbatim>\<open>update\<close>\<close>

text \<open>
  The options of \<^verbatim>\<open>update\<close>. \<^verbatim>\<open>get\<close>, when it is a function, is given by what the call
  \<^verbatim>\<open>get()\<close> returns. \<^verbatim>\<open>set\<close>, when it is a function, is given by what it does to the two
  documents it can reach, the copy it is handed and the model that \<^verbatim>\<open>get\<close> returned:
  it maps their contents before the call to their contents after it, and a setter
  that only stores its argument elsewhere is the identity. A collection is given by
  its \<^verbatim>\<open>findOne\<close> on the \<^verbatim>\<open>_id\<close> of the query.
\<close>

record options =
  opt_get :: "obj option option"
  opt_set :: "(obj \<times> obj \<Rightarrow> obj \<times> obj) option"
  opt_collection :: "(val \<Rightarrow> obj option) option"
  opt_ignore :: "string list"

text \<open>The calls that \<^verbatim>\<open>update\<close> makes on its collaborators, in order.\<close>

datatype effect = SetCalled obj | CollectionUpdate val obj

text \<open>
  \<^verbatim>\<open>update(doc, options)\<close>, lines 183 to 210: the calls made, and the exception thrown
  or the value returned.
\<close>

definition update :: "obj \<Rightarrow> options \<Rightarrow> effect list \<times> (error + obj option)" where
  "update doc opts =
     (let model =
            (case opt_get opts of
               Some r \<Rightarrow> r
             | None \<Rightarrow>
                 (case opt_collection opts of
                    Some findOne \<Rightarrow> if truthy (get_prop doc ''_id'') then findOne (get_prop doc ''_id'') else None
                  | None \<Rightarrow> None))
      in case model of
           None \<Rightarrow> ([], Inl (Error ''Diff: no doc to diff against''))
         | Some m \<Rightarrow>
             (case diffToModifier (Some m) (Some doc) (opt_ignore opts) False of
                Inl e \<Rightarrow> ([], Inl e)
              | Inr None \<Rightarrow> ([], Inr None)
              | Inr (Some diff) \<Rightarrow>
                  (case opt_set opts of
                     Some setter \<Rightarrow>
                       (case applyModifier (clone m) (Some diff) of
                          Inl e \<Rightarrow> ([], Inl e)
                        | Inr copy \<Rightarrow>
                            (let (copy', m') = setter (copy, m)
                             in if \<not> isEqual (Obj copy') (Obj m')
                                then ([SetCalled copy], Inl (Error ''Diff: not equal after update''))
                                else ([SetCalled copy], Inr (Some diff))))
                   | None \<Rightarrow>
                       (case opt_collection opts of
                          None \<Rightarrow> ([], Inl (Error ''Diff: no setter provided''))
                        | Some findOne \<Rightarrow>
                            ([CollectionUpdate (get_prop m ''_id'') [(''$set'', Obj diff)]],
                             Inr (Some diff))))))"

subsection \<open>\<^verbatim>\<open>mapModifierToKey\<close>\<close>

text \<open>
  \<^verbatim>\<open>Object.keys(f || {})\<close> for a field \<^verbatim>\<open>f\<close> of a modifier, which the interface makes a
  mapping or absent.
\<close>

fun field_keys :: "val \<Rightarrow> string list" where
  "field_keys (Obj kvs) = map fst kvs"
| "field_keys v = []"

text \<open>The read \<^verbatim>\<open>f[k]\<close>: a \<^verbatim>\<open>TypeError\<close> when \<^verbatim>\<open>f\<close> is \<^verbatim>\<open>undefined\<close> or \<^verbatim>\<open>null\<close>.\<close>

fun read_member :: "val \<Rightarrow> string \<Rightarrow> error + val" where
  "read_member Undefined k = Inl TypeError"
| "read_member Null k = Inl TypeError"
| "read_member (Obj kvs) k = Inr (get_prop kvs k)"
| "read_member v k = Inr Undefined"

text \<open>
  \<^verbatim>\<open>valueModifier[f][k] = v\<close>, after \<^verbatim>\<open>valueModifier[f]\<close> has been made an empty mapping
  if it was absent (lines 219 to 222 and 225 to 228).
\<close>

definition put_member :: "string \<Rightarrow> string \<Rightarrow> val \<Rightarrow> obj \<Rightarrow> obj" where
  "put_member f k v vm =
     AList.update f
       (Obj (AList.update k v (case map_of vm f of Some (Obj kvs) \<Rightarrow> kvs | _ \<Rightarrow> []))) vm"

text \<open>Lines 218 to 223: no read can fail, the keys are those of \<^verbatim>\<open>modifier.$set\<close>.\<close>

definition mapSetLoop :: "obj \<Rightarrow> string \<Rightarrow> obj \<Rightarrow> obj" where
  "mapSetLoop modifier key vm =
     foldl (\<lambda>vm keyPath.
              put_member ''$set'' (key @ ''.'' @ keyPath)
                (get_prop (case get_prop modifier ''$set'' of Obj kvs \<Rightarrow> kvs | _ \<Rightarrow> []) keyPath) vm)
       vm (field_keys (get_prop modifier ''$set''))"

text \<open>Lines 224 to 229: the value stored is read from \<^verbatim>\<open>modifier.$set\<close>, as line 228 has it.\<close>

fun mapUnsetLoop :: "obj \<Rightarrow> string \<Rightarrow> obj \<Rightarrow> string list \<Rightarrow> error + obj" where
  "mapUnsetLoop modifier key vm [] = Inr vm"
| "mapUnsetLoop modifier key vm (keyPath # rest) =
     (case read_member (get_prop modifier ''$set'') keyPath of
        Inl e \<Rightarrow> Inl e
      | Inr v \<Rightarrow> mapUnsetLoop modifier key (put_member ''$unset'' (key @ ''.'' @ keyPath) v vm) rest)"

text \<open>\<^verbatim>\<open>mapModifierToKey(modifier, key)\<close>, lines 213 to 231.\<close>

definition mapModifierToKey :: "obj option \<Rightarrow> string \<Rightarrow> error + obj" where
  "mapModifierToKey modifier key =
     (case modifier of
        None \<Rightarrow> Inl (Error ''called mapModifierToKey on undefined'')
      | Some m \<Rightarrow>
          mapUnsetLoop m key (mapSetLoop m key []) (field_keys (get_prop m ''$unset'')))"

section \<open>Notions used to state the properties\<close>

text \<open>A field of the modifier that a call of \<^verbatim>\<open>diffToModifier\<close> returned, if it returned one.\<close>

definition result_field :: "error + obj option \<Rightarrow> string \<Rightarrow> val" where
  "result_field r f = (case r of Inr (Some m) \<Rightarrow> get_prop m f | _ \<Rightarrow> Undefined)"

text \<open>
  A value with none of the nodes for which \<^verbatim>\<open>Object.keys\<close> is empty although the value is
  an object to \<^verbatim>\<open>typeof\<close>: no date, no empty sequence and no empty mapping, at any depth.
\<close>

fun keyed :: "val \<Rightarrow> bool" where
  "keyed (Obj kvs) = (kvs \<noteq> [] \<and> list_all (\<lambda>kv. keyed (snd kv)) kvs)"
| "keyed (Arr xs) = (xs \<noteq> [] \<and> list_all keyed xs)"
| "keyed (Date t) = False"
| "keyed v = True"




subsection \<open>Documents up to the order of their keys\<close>

text \<open>
  \<^verbatim>\<open>isEqual\<close> does not see the order of the keys of a mapping. A \<open>tree\<close> is a value in
  which a mapping is the function from its keys to its children: two values are deeply
  equal exactly when their trees are equal (lemma \<open>isEqual_tree\<close> below).
\<close>

datatype tree = TLeaf val | TArr "tree list" | TNode "string \<Rightarrow> tree option"

fun tree_of :: "val \<Rightarrow> tree" where
  "tree_of (Obj kvs) = TNode (map_of (map (\<lambda>kv. (fst kv, tree_of (snd kv))) kvs))"
| "tree_of (Arr xs) = TArr (map tree_of xs)"
| "tree_of v = TLeaf v"

definition fields_of :: "obj \<Rightarrow> string \<Rightarrow> tree option" where
  "fields_of kvs = map_of (map (\<lambda>kv. (fst kv, tree_of (snd kv))) kvs)"




fun unslot :: "tree option \<Rightarrow> tree" where
  "unslot None = TLeaf Undefined"
| "unslot (Some t) = t"

definition slot_at :: "tree list \<Rightarrow> nat \<Rightarrow> tree option" where
  "slot_at ts i = (if i < length ts then Some (ts ! i) else None)"

text \<open>
  \<^verbatim>\<open>setValueForKeyPath\<close>, \<^verbatim>\<open>unsetKeyPath\<close> and \<^verbatim>\<open>prune\<close> as they act on one child, the path
  being what is left of the keypath below that child: the empty path replaces, or
  removes, the child itself.
\<close>

fun tset :: "tree \<Rightarrow> string list \<Rightarrow> tree option \<Rightarrow> tree option" where
  "tset v [] x = Some v"
| "tset v (k # ks) (Some (TNode f)) = Some (TNode (f(k := tset v ks (f k))))"
| "tset v (k # ks) (Some (TArr ts)) =
     (case seg_index k of
        Some i \<Rightarrow> Some (TArr (put_at (TLeaf Undefined) i (unslot (tset v ks (slot_at ts i))) ts))
      | None \<Rightarrow> Some (TArr ts))"
| "tset v (k # ks) (Some (TLeaf w)) =
     (if w = Undefined then Some (TNode ((\<lambda>k. None)(k := tset v ks None)))
      else Some (TLeaf w))"
| "tset v (k # ks) None = Some (TNode ((\<lambda>k. None)(k := tset v ks None)))"

fun tunset :: "string list \<Rightarrow> tree option \<Rightarrow> tree option" where
  "tunset [] x = None"
| "tunset (k # ks) (Some (TNode f)) = Some (TNode (f(k := tunset ks (f k))))"
| "tunset (k # ks) (Some (TArr ts)) =
     (case seg_index k of
        Some i \<Rightarrow>
          if i < length ts then Some (TArr (ts[i := unslot (tunset ks (Some (ts ! i)))]))
          else Some (TArr ts)
      | None \<Rightarrow> Some (TArr ts))"
| "tunset (k # ks) x = x"



text \<open>
  A write or a removal at a path: \<open>(ks, Some v)\<close> sets \<open>v\<close> at \<open>ks\<close>, \<open>(ks, None)\<close> unsets
  \<open>ks\<close>. \<open>below k ops\<close> are the operations of \<open>ops\<close> that go through the key \<open>k\<close>, with
  the rest of their paths.
\<close>

type_synonym path_op = "string list \<times> tree option"

definition run_op :: "path_op \<Rightarrow> tree option \<Rightarrow> tree option" where
  "run_op op x = (case snd op of Some v \<Rightarrow> tset v (fst op) x | None \<Rightarrow> tunset (fst op) x)"

definition run_ops :: "path_op list \<Rightarrow> tree option \<Rightarrow> tree option" where
  "run_ops ops x = fold run_op ops x"

definition below :: "string \<Rightarrow> path_op list \<Rightarrow> path_op list" where
  "below k ops =
     map (\<lambda>op. (tl (fst op), snd op)) (filter (\<lambda>op. fst op \<noteq> [] \<and> hd (fst op) = k) ops)"

text \<open>
  The operations that go through the index \<open>i\<close> of a sequence, and the length to
  which the writes among the operations make a sequence of length \<open>n\<close> grow.
\<close>

definition at_index :: "nat \<Rightarrow> path_op list \<Rightarrow> path_op list" where
  "at_index i ops =
     map (\<lambda>op. (tl (fst op), snd op))
       (filter (\<lambda>op. fst op \<noteq> [] \<and> seg_index (hd (fst op)) = Some i) ops)"

definition grow :: "path_op list \<Rightarrow> nat \<Rightarrow> nat" where
  "grow ops n =
     fold (\<lambda>op n. case (fst op, snd op) of
                    (k # ks, Some v) \<Rightarrow> (case seg_index k of Some i \<Rightarrow> max n (Suc i) | None \<Rightarrow> n)
                  | _ \<Rightarrow> n) ops n"


definition run_root :: "path_op list \<Rightarrow> (string \<Rightarrow> tree option) \<Rightarrow> string \<Rightarrow> tree option" where
  "run_root ops f = (\<lambda>k. run_ops (below k ops) (f k))"

subsection \<open>Documents that a diff can rebuild\<close>




text \<open>The child of a value at a key, and the value at a path of keys, through mappings only.\<close>

fun child :: "val \<Rightarrow> string \<Rightarrow> val" where
  "child (Obj kvs) k = get_prop kvs k"
| "child v k = Undefined"

fun owalk :: "string list \<Rightarrow> val \<Rightarrow> val" where
  "owalk [] v = v"
| "owalk (k # ks) v = owalk ks (child v k)"





text \<open>
  The operations of a list that act below a path, with the path taken off; the
  operations that the \<^verbatim>\<open>each\<close> of \<^verbatim>\<open>$set\<close> and of \<^verbatim>\<open>$unset\<close> run for the entries of a mapping;
  and a value as the child of a tree, \<^verbatim>\<open>undefined\<close> being no child.
\<close>

definition ops_under :: "string list \<Rightarrow> path_op list \<Rightarrow> path_op list" where
  "ops_under p ops =
     map (\<lambda>op. (drop (length p) (fst op), snd op)) (filter (\<lambda>op. take (length p) (fst op) = p) ops)"





section \<open>Basic facts\<close>

lemma split_dot_nonempty: "split_dot s \<noteq> []"
  by (induction s) auto

lemma get_prop_cases: "get_prop kvs k = Undefined \<or> get_prop kvs k \<in> snd ` set kvs"
  by (auto simp: get_prop_def split: option.splits dest!: map_of_SomeD intro: rev_image_eqI)

lemma walk_Undefined: "walk ks Undefined = Undefined"
  by (cases ks) simp_all

lemma isEqual_refl: "isEqual v v"
proof (induction v)
  case (Arr xs)
  then show ?case by (simp add: list.rel_refl_strong)
next
  case (Obj kvs)
  have "isEqual (get_prop kvs k) (get_prop kvs k)" if "k \<in> fst ` set kvs" for k
  proof -
    from that obtain w where "map_of kvs k = Some w"
      by (metis weak_map_of_SomeI prod.collapse imageE)
    then have "get_prop kvs k = w" and "(k, w) \<in> set kvs"
      by (auto simp: get_prop_def dest: map_of_SomeD)
    with Obj show ?thesis by force
  qed
  then show ?case by simp
qed simp_all

section \<open>The subsumption step\<close>










section \<open>The falsy-value rule\<close>

text \<open>
  Claim C5, as the source has it. Diffing \<^verbatim>\<open>{a: 1}\<close> against \<^verbatim>\<open>{a: v}\<close> returns
  \<^verbatim>\<open>{$unset: {a: true}}\<close>, with no \<^verbatim>\<open>$set\<close>, when \<^verbatim>\<open>v\<close> is falsy and not a number
  (\<^verbatim>\<open>undefined\<close>, \<^verbatim>\<open>null\<close>, \<^verbatim>\<open>false\<close>, the empty string). The number \<^verbatim>\<open>0\<close> is numeric to
  \<^verbatim>\<open>shouldSet\<close> and \<^verbatim>\<open>shouldUnset\<close>: diffing against \<^verbatim>\<open>{a: 0}\<close> returns \<^verbatim>\<open>{$set: {a: 0}}\<close>, with
  no \<^verbatim>\<open>$unset\<close>.
\<close>

theorem falsy_value_rule:
  "(\<not> truthy v \<and> \<not> check_Number v \<longrightarrow>
      diffToModifier (Some [(''a'', Num 1)]) (Some [(''a'', v)]) [] False =
        Inr (Some [(''$unset'', Obj [(''a'', Bool True)])])) \<and>
   diffToModifier (Some [(''a'', Num 1)]) (Some [(''a'', Num 0)]) [] False =
     Inr (Some [(''$set'', Obj [(''a'', Num 0)])])"
proof (intro conjI impI)
  assume "\<not> truthy v \<and> \<not> check_Number v"
  then have v: "v = Undefined \<or> v = Null \<or> v = Bool False \<or> v = Str []"
    by (cases v) auto
  have "diffToModifier (Some [(''a'', Num 1)]) (Some [(''a'', w)]) [] False =
        Inr (Some [(''$unset'', Obj [(''a'', Bool True)])])"
    if "w = Undefined \<or> w = Null \<or> w = Bool False \<or> w = Str []" for w
    using that by (elim disjE; hypsubst) code_simp+
  with v show "diffToModifier (Some [(''a'', Num 1)]) (Some [(''a'', v)]) [] False =
        Inr (Some [(''$unset'', Obj [(''a'', Bool True)])])" by blast
next
  show "diffToModifier (Some [(''a'', Num 1)]) (Some [(''a'', Num 0)]) [] False =
     Inr (Some [(''$set'', Obj [(''a'', Num 0)])])"
    by code_simp
qed

theorem falsy_value_rule_witness:
  "\<not> truthy (Bool False) \<and> \<not> check_Number (Bool False) \<and>
   diffToModifier (Some [(''a'', Num 1)]) (Some [(''a'', Bool False)]) [] False =
     Inr (Some [(''$unset'', Obj [(''a'', Bool True)])])"
  using falsy_value_rule [of "Bool False"] by simp

text \<open>
  Claim C5, as stated, fails at its own input: for \<^verbatim>\<open>{a: 1}\<close> against \<^verbatim>\<open>{a: 0}\<close> the
  modifier has no \<^verbatim>\<open>$unset\<close> field, and its \<^verbatim>\<open>$set\<close> field has the entry \<^verbatim>\<open>a: 0\<close>.
\<close>

theorem falsy_value_rule_counterexample:
  "result_field (diffToModifier (Some [(''a'', Num 1)]) (Some [(''a'', Num 0)]) [] False) ''$unset''
     = Undefined \<and>
   result_field (diffToModifier (Some [(''a'', Num 1)]) (Some [(''a'', Num 0)]) [] False) ''$set''
     = Obj [(''a'', Num 0)]"
  by code_simp

section \<open>Diffing a document against itself\<close>

lemma shouldSet_same: "shouldSet v v = False"
  by (cases v) (simp_all add: shouldSet_def isEqual_refl)

lemma shouldUnset_same: "v = Undefined \<or> keyed v \<Longrightarrow> shouldUnset v v = Inr False"
  by (cases v) (auto simp: shouldUnset_def)

lemma walk_keyed: "v = Undefined \<or> keyed v \<Longrightarrow> walk ks v = Undefined \<or> keyed (walk ks v)"
proof (induction ks arbitrary: v)
  case Nil
  then show ?case by simp
next
  case (Cons k ks)
  show ?case
  proof (cases v)
    case (Obj kvs)
    with Cons.prems have "list_all (\<lambda>kv. keyed (snd kv)) kvs" by simp
    with get_prop_cases [of kvs k] have "get_prop kvs k = Undefined \<or> keyed (get_prop kvs k)"
      by (auto simp: list_all_iff)
    from Cons.IH [OF this] Obj show ?thesis by simp
  next
    case (Arr xs)
    with Cons.prems have "list_all keyed xs" by simp
    then have "i < length xs \<Longrightarrow> keyed (xs ! i)" for i
      by (simp add: list_all_length)
    with Cons.IH Arr show ?thesis
      by (auto split: option.splits)
  qed simp_all
qed

lemma valueForKeyPath_keyed:
  assumes "list_all (\<lambda>kv. keyed (snd kv)) X"
  shows "valueForKeyPath kp (Obj X) = Undefined \<or> keyed (valueForKeyPath kp (Obj X))"
proof -
  obtain k ks where s: "split_dot kp = k # ks"
    using split_dot_nonempty [of kp] by (cases "split_dot kp") auto
  from assms get_prop_cases [of X k] have "get_prop X k = Undefined \<or> keyed (get_prop X k)"
    by (auto simp: list_all_iff)
  from walk_keyed [OF this, of ks] s show ?thesis
    by (simp add: valueForKeyPath_def)
qed

lemma forward_same: "foldl (forwardStep (Some X) X) s kps = s"
  by (induction kps arbitrary: s) (simp_all add: forwardStep_def doc_val_def shouldSet_same)

lemma backward_same:
  assumes "list_all (\<lambda>kv. keyed (snd kv)) X"
  shows "backwardLoop X (Some X) u kps = Inr u"
proof (induction kps arbitrary: u)
  case Nil
  then show ?case by simp
next
  case (Cons kp kps)
  have "shouldUnset (valueForKeyPath kp (Obj X)) (valueForKeyPath kp (Obj X)) = Inr False"
    using valueForKeyPath_keyed [OF assms, of kp] by (rule shouldUnset_same)
  with Cons show ?case by (simp add: doc_val_def)
qed

lemma diffOnce_same:
  assumes "list_all (\<lambda>kv. keyed (snd kv)) X"
  shows "diffOnce (Some X) (Some X) ign = Inr None"
  by (simp add: diffOnce_def backwardPass_def forwardPass_def forward_same
      backward_same [OF assms] subsume_def mkDelta_def)

text \<open>
  Claim C7, as the source has it. For every document \<^verbatim>\<open>X\<close> that holds no empty mapping
  below its root, and no date and no empty sequence either, \<^verbatim>\<open>diffToModifier(X, X)\<close>
  returns the absent result, whatever the ignore list and the \<^verbatim>\<open>pruneEmptyObjects\<close> flag.
\<close>

theorem diff_idempotent:
  "list_all (\<lambda>kv. keyed (snd kv)) X \<Longrightarrow> diffToModifier (Some X) (Some X) ign flag = Inr None"
  by (simp add: diffToModifier_def diffOnce_same)

theorem diff_idempotent_witness:
  "list_all (\<lambda>kv. keyed (snd kv))
     [(''a'', Num 1), (''b'', Obj [(''c'', Str ''x''), (''d'', Arr [Null])])] \<and>
   diffToModifier (Some [(''a'', Num 1), (''b'', Obj [(''c'', Str ''x''), (''d'', Arr [Null])])])
     (Some [(''a'', Num 1), (''b'', Obj [(''c'', Str ''x''), (''d'', Arr [Null])])]) [] False =
     Inr None"
proof -
  have h: "list_all (\<lambda>kv. keyed (snd kv))
     [(''a'', Num 1), (''b'', Obj [(''c'', Str ''x''), (''d'', Arr [Null])])]"
    by simp
  from h diff_idempotent [OF h, of "[]" False] show ?thesis by simp
qed

text \<open>
  Claim C7, as stated, fails for the document \<^verbatim>\<open>{a: {}}\<close>: diffed against itself it gives
  the modifier \<^verbatim>\<open>{$unset: {a: true}}\<close>, not the absent result.
\<close>

theorem diff_idempotent_counterexample:
  "diffToModifier (Some [(''a'', Obj [])]) (Some [(''a'', Obj [])]) [] False =
     Inr (Some [(''$unset'', Obj [(''a'', Bool True)])])"
  by code_simp

section \<open>Applying a modifier twice\<close>




lemma tunset_None [simp]: "tunset ks None = None"
  by (cases ks) simp_all

lemma run_ops_Nil [simp]: "run_ops [] x = x"
  by (simp add: run_ops_def)


lemma run_ops_append [simp]: "run_ops (xs @ ys) x = run_ops ys (run_ops xs x)"
  by (simp add: run_ops_def)

lemma below_Nil [simp]: "below k [] = []"
  by (simp add: below_def)

lemma below_Cons [simp]:
  "below k ((k' # ks, a) # ops) = (if k' = k then (ks, a) # below k ops else below k ops)"
  by (simp add: below_def)

lemma below_append [simp]: "below k (xs @ ys) = below k xs @ below k ys"
  by (simp add: below_def)

lemma run_op_empty [simp]: "run_op ([], a) x = a"
  by (cases a) (simp_all add: run_op_def)













lemma at_index_Nil [simp]: "at_index i [] = []"
  by (simp add: at_index_def)





lemma grow_Nil [simp]: "grow [] n = n"
  by (simp add: grow_def)
























lemma tree_of_Obj [simp]: "tree_of (Obj X) = TNode (fields_of X)"
  by (simp add: fields_of_def)

declare tree_of.simps(1) [simp del]

lemma fields_of_Nil [simp]: "fields_of [] = (\<lambda>k. None)"
  by (simp add: fields_of_def)

































lemma run_root_Nil [simp]: "run_root [] f = f"
  by (simp add: run_root_def)


























section \<open>The round trip\<close>

text \<open>
  The keypaths of a document with dot-free keys are its paths of keys; the two passes
  of \<^verbatim>\<open>diffToModifier\<close> are then read as operations on paths, and \<^verbatim>\<open>apply\<close> as running
  them, key by key, on the first document.
\<close>

lemma split_dot_free: "CHR ''.'' \<notin> set k \<Longrightarrow> split_dot k = [k]"
  by (induction k) auto



lemma owalk_Undefined [simp]: "owalk p Undefined = Undefined"
  by (induction p) simp_all














lemma ops_under_Nil [simp]: "ops_under [] ops = ops"
  by (simp add: ops_under_def)






























lemma filteredKeyPaths_Nil [simp]: "filteredKeyPaths kps [] = kps"
  by (simp add: filteredKeyPaths_def)




















lemma split_dollar [simp]: "split_dot ''$set'' = [''$set'']" "split_dot ''$unset'' = [''$unset'']"
  by (simp_all add: split_dot_free)







section \<open>Where the source departs from the specification\<close>

text \<open>
  Claim C3. \<^verbatim>\<open>update\<close> is called with the document \<^verbatim>\<open>{_id: "1", a: 2}\<close>, a \<^verbatim>\<open>get\<close> that
  returns \<^verbatim>\<open>{_id: "1", a: 1}\<close> and a setter that mutates neither document. The setter is
  handed the mutated clone, which is deeply equal to the document asked for; line 202
  compares it with the model, and \<^verbatim>\<open>update\<close> throws "not equal after update".
\<close>

theorem update_compares_with_model:
  "update [(''_id'', Str ''1''), (''a'', Num 2)]
     \<lparr>opt_get = Some (Some [(''_id'', Str ''1''), (''a'', Num 1)]),
      opt_set = Some (\<lambda>st. st), opt_collection = None, opt_ignore = []\<rparr> =
     ([SetCalled [(''_id'', Str ''1''), (''a'', Num 2)]],
      Inl (Error ''Diff: not equal after update'')) \<and>
   isEqual (Obj [(''_id'', Str ''1''), (''a'', Num 2)]) (Obj [(''_id'', Str ''1''), (''a'', Num 2)])"
  by code_simp

text \<open>
  Claim C4. Line 228 of \<^verbatim>\<open>mapModifierToKey\<close> reads the value of a prefixed \<^verbatim>\<open>$unset\<close> path
  from \<^verbatim>\<open>modifier.$set\<close>: for the modifier \<^verbatim>\<open>{$set: {b: 1}, $unset: {a: true}}\<close> and the key
  \<^verbatim>\<open>x\<close> the path \<^verbatim>\<open>x.a\<close> is mapped to \<^verbatim>\<open>undefined\<close>, not to \<^verbatim>\<open>true\<close>; and for
  \<^verbatim>\<open>{$unset: {a: true}}\<close>, which has no \<^verbatim>\<open>$set\<close>, the read throws a \<^verbatim>\<open>TypeError\<close>.
\<close>

theorem mapModifierToKey_unset_from_set:
  "mapModifierToKey (Some [(''$set'', Obj [(''b'', Num 1)]), (''$unset'', Obj [(''a'', Bool True)])])
     ''x'' =
     Inr [(''$set'', Obj [(''x.b'', Num 1)]), (''$unset'', Obj [(''x.a'', Undefined)])] \<and>
   mapModifierToKey (Some [(''$unset'', Obj [(''a'', Bool True)])]) ''x'' = Inl TypeError"
  by code_simp

text \<open>
  Claim C6. Diffing \<^verbatim>\<open>{a: {b: 1}}\<close> against \<^verbatim>\<open>{a: 5}\<close> returns a modifier that has the
  keypath \<^verbatim>\<open>a\<close> both in \<^verbatim>\<open>$set\<close> and in \<^verbatim>\<open>$unset\<close>: \<^verbatim>\<open>shouldUnset\<close> takes the number \<^verbatim>\<open>5\<close>,
  which has no keys, for an emptied object.
\<close>

theorem set_unset_overlap:
  "diffToModifier (Some [(''a'', Obj [(''b'', Num 1)])]) (Some [(''a'', Num 5)]) [] False =
     Inr (Some [(''$set'', Obj [(''a'', Num 5)]), (''$unset'', Obj [(''a'', Bool True)])])"
  by code_simp

text \<open>
  Claim C9. \<^verbatim>\<open>$set\<close> on an empty destination and the modifier \<^verbatim>\<open>{$set: {a: 1}}\<close> writes
  \<^verbatim>\<open>a: 1\<close> and then, at line 156, the top-level key \<^verbatim>\<open>$set\<close> of the modifier as well.
\<close>

theorem dollar_set_writes_modifier_keys:
  "dollar_set [] (Obj [(''$set'', Obj [(''a'', Num 1)])]) =
     [(''a'', Num 1), (''$set'', Obj [(''a'', Num 1)])]"
  by code_simp

text \<open>
  Claim C10. \<^verbatim>\<open>shouldUnset\<close> throws a \<^verbatim>\<open>TypeError\<close> when the old value is \<^verbatim>\<open>null\<close> and the
  new one is \<^verbatim>\<open>undefined\<close>, and so does \<^verbatim>\<open>diffToModifier\<close> for the documents \<^verbatim>\<open>{a: null}\<close>
  and \<^verbatim>\<open>{}\<close>.
\<close>

theorem shouldUnset_throws_on_null_leaf:
  "shouldUnset Undefined Null = Inl TypeError \<and>
   diffToModifier (Some [(''a'', Null)]) (Some []) [] False = Inl TypeError"
  by code_simp

end
